theory Spec2Isabelle
  imports Complex_Main "HOL-Library.Word"
begin

section \<open>Data model of the ExerciseFormCorrector component\<close>

text \<open>
  The component \<^verbatim>\<open>ExerciseFormCorrector.jsx\<close> keeps its state in React hooks. The
  values it handles are modelled here: a browser \<^verbatim>\<open>File\<close> (with an object identity, since
  React compares effect dependencies by reference), the parsed JSON body of the analysis
  response, and JavaScript numbers as far as \<^verbatim>\<open>Math.round\<close> of a quotient can produce them.
  A JSON field that is absent, \<^verbatim>\<open>undefined\<close> or \<^verbatim>\<open>null\<close> is \<open>None\<close>.

  \<open>response_data\<close> is \<^verbatim>\<open>response.data\<close> of a resolved request. The call of \<^verbatim>\<open>axios.post\<close>
  names no response type, so \<^verbatim>\<open>axios\<close> parses the body as JSON and, when the body does not
  parse, hands over the body text as a string: \<open>Report\<close> is a parsed report, \<open>RawBody\<close> the
  text of a body that is not JSON.
\<close>

record jsfile =
  file_ref :: nat
  file_name :: string
  file_type :: string

record correction =
  issue :: string
  severity :: "string option"
  feedback :: string
  correction_instruction :: string

record aspect_data =
  score :: int
  aspect_feedback :: string

record analysis_result =
  overall_score :: int
  whats_right :: "string list option"
  corrections_needed :: "correction list option"
  detailed_breakdown :: "(string \<times> aspect_data) list option"
  improvement_tips :: "string list option"
  overlay_url :: "string option"

datatype response_data = Report analysis_result | RawBody string

datatype jsnum = Finite int | Infinity | NaN

section \<open>Result renderer\<close>

text \<open>
  \<^verbatim>\<open>getScoreColor\<close> and \<^verbatim>\<open>getSeverityColor\<close>, with the branches in the order of the source.
  The \<^verbatim>\<open>switch\<close> compares with strict equality, so a missing severity takes the default arm.
\<close>

definition getScoreColor :: "int \<Rightarrow> string" where
  "getScoreColor sc =
     (if sc \<ge> 80 then ''text-green-600''
      else if sc \<ge> 60 then ''text-yellow-600''
      else ''text-red-600'')"

definition getSeverityColor :: "string option \<Rightarrow> string" where
  "getSeverityColor sev =
     (if sev = Some ''critical'' then ''bg-red-100 border-red-400 text-red-700''
      else if sev = Some ''warning'' then ''bg-yellow-100 border-yellow-400 text-yellow-700''
      else if sev = Some ''info'' then ''bg-blue-100 border-blue-400 text-blue-700''
      else ''bg-gray-100 border-gray-400 text-gray-700'')"

text \<open>The ternary that styles the inline severity badge of a correction.\<close>

definition severityBadge :: "string option \<Rightarrow> string" where
  "severityBadge sev =
     (if sev = Some ''critical'' then ''bg-red-200 text-red-800''
      else if sev = Some ''warning'' then ''bg-yellow-200 text-yellow-800''
      else ''bg-blue-200 text-blue-800'')"

text \<open>\<^verbatim>\<open>aspect.replace("_", " ")\<close>: a string pattern replaces the first occurrence only.\<close>

fun replace_underscore :: "string \<Rightarrow> string" where
  "replace_underscore [] = []"
| "replace_underscore (c # cs) =
     (if c = CHR ''_'' then CHR '' '' # cs else c # replace_underscore cs)"

text \<open>
  The rendered report is a list of sections, in document order. Each section keeps the
  data the JSX puts into it: class names computed by the functions above and the texts.
\<close>

record correction_view =
  container_class :: string
  badge_class :: string
  badge_text :: "string option"
  view_issue :: string
  view_feedback :: string
  view_instruction :: string

record aspect_view =
  aspect_title :: string
  aspect_class :: string
  aspect_score :: int
  aspect_text :: string

datatype report_section =
    OverallScore string int
  | WhatsRight "string list"
  | CorrectionsNeeded "correction_view list"
  | DetailedBreakdown "aspect_view list"
  | ImprovementTips "string list"
  | SkeletalOverlay string

definition render_correction :: "correction \<Rightarrow> correction_view" where
  "render_correction c =
     \<lparr>container_class = ''border-l-4 p-4 rounded '' @ getSeverityColor (severity c),
      badge_class = ''text-xs font-medium px-2 py-1 rounded-full '' @ severityBadge (severity c),
      badge_text = severity c,
      view_issue = issue c,
      view_feedback = feedback c,
      view_instruction = correction_instruction c\<rparr>"

definition render_aspect :: "string \<times> aspect_data \<Rightarrow> aspect_view" where
  "render_aspect e =
     \<lparr>aspect_title = replace_underscore (fst e),
      aspect_class = ''text-sm font-semibold '' @ getScoreColor (score (snd e)),
      aspect_score = score (snd e),
      aspect_text = aspect_feedback (snd e)\<rparr>"

text \<open>
  The five conditional sections. An array or an object is truthy even when it is empty,
  so the three list sections test \<^verbatim>\<open>length > 0\<close> as well; the breakdown section tests
  the object alone; the empty string is falsy, so an empty \<^verbatim>\<open>overlay_url\<close> shows nothing.
\<close>

definition render_whats_right :: "analysis_result \<Rightarrow> report_section list" where
  "render_whats_right a =
     (case whats_right a of
        None \<Rightarrow> []
      | Some xs \<Rightarrow> if length xs > 0 then [WhatsRight xs] else [])"

definition render_corrections :: "analysis_result \<Rightarrow> report_section list" where
  "render_corrections a =
     (case corrections_needed a of
        None \<Rightarrow> []
      | Some cs \<Rightarrow> if length cs > 0 then [CorrectionsNeeded (map render_correction cs)] else [])"

definition render_breakdown :: "analysis_result \<Rightarrow> report_section list" where
  "render_breakdown a =
     (case detailed_breakdown a of
        None \<Rightarrow> []
      | Some entries \<Rightarrow> [DetailedBreakdown (map render_aspect entries)])"

definition render_tips :: "analysis_result \<Rightarrow> report_section list" where
  "render_tips a =
     (case improvement_tips a of
        None \<Rightarrow> []
      | Some ts \<Rightarrow> if length ts > 0 then [ImprovementTips ts] else [])"

definition render_overlay :: "analysis_result \<Rightarrow> report_section list" where
  "render_overlay a =
     (case overlay_url a of
        None \<Rightarrow> []
      | Some u \<Rightarrow> if u \<noteq> [] then [SkeletalOverlay (''http://localhost:5000'' @ u)] else [])"

definition render_results :: "analysis_result option \<Rightarrow> report_section list" where
  "render_results an =
     (case an of
        None \<Rightarrow> []
      | Some a \<Rightarrow>
          [OverallScore (''text-2xl font-bold '' @ getScoreColor (overall_score a)) (overall_score a)]
          @ render_whats_right a
          @ render_corrections a
          @ render_breakdown a
          @ render_tips a
          @ render_overlay a)"

section \<open>Component state and the browser resources it touches\<close>

text \<open>
  The hooks of the component are the fields of one record. Three things outside React
  are part of it, so that every effect of a handler can be observed: the calls of
  \<^verbatim>\<open>URL.createObjectURL\<close> and \<^verbatim>\<open>URL.revokeObjectURL\<close> in the order they happen (with a
  supply of fresh URLs), the HTTP requests handed to \<^verbatim>\<open>axios.post\<close> with the number of
  them not yet settled, and the texts passed to \<^verbatim>\<open>alert\<close> and \<^verbatim>\<open>console.error\<close>.
  \<open>analysis\<close> holds what \<^verbatim>\<open>setAnalysis\<close> was given, as it was given. The byte counters of
  a progress event are unsigned 64-bit integers in the browser.
  \<open>videoSrc\<close> is \<^verbatim>\<open>videoRef.current.src\<close>; the video element exists exactly when the
  last committed render had a file selected. Calls that only touch the DOM event or the
  file input (\<^verbatim>\<open>preventDefault\<close>, \<^verbatim>\<open>stopPropagation\<close>, \<^verbatim>\<open>load\<close>, clearing the input) are
  left out.
\<close>

type_synonym url = nat

datatype url_event = Created url | Revoked url

record progress_event =
  loaded :: "64 word"
  ev_total :: "64 word option"

record request =
  req_endpoint :: string
  req_content_type :: string
  req_video :: jsfile
  req_exercise_type :: string

datatype outcome = Resolved response_data | Rejected string

record state =
  videoFile :: "jsfile option"
  exerciseType :: string
  analysis :: "response_data option"
  loading :: bool
  uploadProgress :: jsnum
  isDragging :: bool
  videoUrlRef :: "url option"
  videoSrc :: "url option"
  urlEvents :: "url_event list"
  nextUrl :: url
  requests :: "request list"
  inflight :: nat
  alerts :: "string list"
  consoleErrors :: "string list"

definition initial_state :: state where
  "initial_state =
     \<lparr>videoFile = None, exerciseType = ''squat'', analysis = None, loading = False,
      uploadProgress = Finite 0, isDragging = False, videoUrlRef = None, videoSrc = None,
      urlEvents = [], nextUrl = 0, requests = [], inflight = 0, alerts = [],
      consoleErrors = []\<rparr>"

definition createObjectURL :: "state \<Rightarrow> url \<times> state" where
  "createObjectURL s =
     (nextUrl s, s\<lparr>urlEvents := urlEvents s @ [Created (nextUrl s)], nextUrl := Suc (nextUrl s)\<rparr>)"

definition revokeObjectURL :: "url \<Rightarrow> state \<Rightarrow> state" where
  "revokeObjectURL u s = s\<lparr>urlEvents := urlEvents s @ [Revoked u]\<rparr>"

definition startsWith :: "string \<Rightarrow> string \<Rightarrow> bool" where
  "startsWith str pre = (take (length pre) str = pre)"

subsection \<open>Input manager\<close>

definition handleDragEnter :: "state \<Rightarrow> state" where
  "handleDragEnter s = s\<lparr>isDragging := True\<rparr>"

definition handleDragLeave :: "state \<Rightarrow> state" where
  "handleDragLeave s = s\<lparr>isDragging := False\<rparr>"

definition handleDragOver :: "state \<Rightarrow> state" where
  "handleDragOver s = s"

text \<open>
  The argument of \<open>handleDrop\<close> is \<^verbatim>\<open>e.dataTransfer.files[0]\<close> and that of
  \<open>handleFileSelect\<close> is \<^verbatim>\<open>event.target.files[0]\<close>; both are \<open>None\<close> when the list is
  empty. A blob URL is a non-empty string, so \<^verbatim>\<open>if (videoUrlRef.current)\<close> tests for
  \<open>Some\<close>.
\<close>

definition handleDrop :: "jsfile option \<Rightarrow> state \<Rightarrow> state" where
  "handleDrop fo s0 =
     (let s = s0\<lparr>isDragging := False\<rparr> in
      case fo of
        None \<Rightarrow> s
      | Some f \<Rightarrow>
          if startsWith (file_type f) ''video/'' then
            (let s1 = s\<lparr>videoFile := Some f\<rparr>;
                 s2 = (case videoUrlRef s1 of Some u \<Rightarrow> revokeObjectURL u s1 | None \<Rightarrow> s1);
                 (videoUrl, s3) = createObjectURL s2;
                 s4 = s3\<lparr>videoUrlRef := Some videoUrl\<rparr>
             in if videoFile s0 \<noteq> None then s4\<lparr>videoSrc := Some videoUrl\<rparr> else s4)
          else s)"

definition handleFileSelect :: "jsfile option \<Rightarrow> state \<Rightarrow> state" where
  "handleFileSelect fo s0 =
     (case fo of
        None \<Rightarrow> s0
      | Some f \<Rightarrow>
          (let s1 = s0\<lparr>videoFile := Some f\<rparr>;
               s2 = (case videoUrlRef s1 of Some u \<Rightarrow> revokeObjectURL u s1 | None \<Rightarrow> s1);
               (videoUrl, s3) = createObjectURL s2;
               s4 = s3\<lparr>videoUrlRef := Some videoUrl\<rparr>
           in if videoFile s0 \<noteq> None then s4\<lparr>videoSrc := Some videoUrl\<rparr> else s4))"

definition setExerciseType :: "string \<Rightarrow> state \<Rightarrow> state" where
  "setExerciseType v s = s\<lparr>exerciseType := v\<rparr>"

text \<open>
  The effect with dependency \<^verbatim>\<open>[videoFile]\<close> runs after a render in which the file
  changed; the video element is mounted by then. \<open>commit\<close> is that render, given the
  state before the handler ran. The other effect only has a cleanup, run on unmount.
\<close>

definition videoFile_effect :: "state \<Rightarrow> state" where
  "videoFile_effect s =
     (case videoFile s of
        None \<Rightarrow> s
      | Some f \<Rightarrow>
          (let s1 = (case videoUrlRef s of Some u \<Rightarrow> revokeObjectURL u s | None \<Rightarrow> s);
               (videoUrl, s2) = createObjectURL s1
           in s2\<lparr>videoUrlRef := Some videoUrl, videoSrc := Some videoUrl\<rparr>))"

definition commit :: "state \<Rightarrow> state \<Rightarrow> state" where
  "commit old s = (if videoFile s \<noteq> videoFile old then videoFile_effect s else s)"

definition unmount :: "state \<Rightarrow> state" where
  "unmount s = (case videoUrlRef s of Some u \<Rightarrow> revokeObjectURL u s | None \<Rightarrow> s)"

subsection \<open>Upload and analyze gateway\<close>

text \<open>
  JavaScript numbers are IEEE 754 double-precision values. \<open>to_double\<close> rounds a
  non-negative rational to the nearest of them, a tie to the even significand: the unit
  in the last place of \<open>x\<close> is \<open>2 ^ (e - 52)\<close> for the exponent \<open>e\<close> with
  \<open>2 ^ e \<le> x < 2 ^ (e + 1)\<close>, found by halving or doubling \<open>x\<close> within the exponent
  range \<open>-1022 \<dots> 1023\<close>. The values that occur here come from 64-bit counters and stay
  far inside that range.
\<close>

fun halvings :: "nat \<Rightarrow> rat \<Rightarrow> nat" where
  "halvings n x = (if x < 2 \<or> n = 0 then 0 else Suc (halvings (n - 1) (x / 2)))"

fun doublings :: "nat \<Rightarrow> rat \<Rightarrow> nat" where
  "doublings n x = (if 1 \<le> x \<or> n = 0 then 0 else Suc (doublings (n - 1) (2 * x)))"

declare halvings.simps [simp del] doublings.simps [simp del]

definition ulp :: "rat \<Rightarrow> rat" where
  "ulp x = (if 1 \<le> x then 2 ^ halvings 1023 x / 2 ^ 52
            else 1 / (2 ^ doublings 1022 x * 2 ^ 52))"

definition round_half_even :: "rat \<Rightarrow> int" where
  "round_half_even y =
     (if y - of_int \<lfloor>y\<rfloor> < 1 / 2 then \<lfloor>y\<rfloor>
      else if 1 / 2 < y - of_int \<lfloor>y\<rfloor> then \<lfloor>y\<rfloor> + 1
      else if even \<lfloor>y\<rfloor> then \<lfloor>y\<rfloor> else \<lfloor>y\<rfloor> + 1)"

definition to_double :: "rat \<Rightarrow> rat" where
  "to_double x = (if x = 0 then 0 else of_int (round_half_even (x / ulp x)) * ulp x)"

text \<open>
  \<^verbatim>\<open>Math.round\<close> gives the nearest integer, a tie towards \<open>+\<infinity>\<close>, and is exact on a
  double. \<open>percentCompleted\<close> is \<^verbatim>\<open>Math.round((loaded * 100) / total)\<close>: the two counters
  become doubles, and the product and the quotient are each rounded to a double. With
  \<^verbatim>\<open>total\<close> undefined the quotient is \<^verbatim>\<open>NaN\<close>, with \<^verbatim>\<open>total\<close> zero it is \<^verbatim>\<open>NaN\<close> or
  \<^verbatim>\<open>Infinity\<close>.
\<close>

definition math_round :: "rat \<Rightarrow> int" where
  "math_round x = \<lfloor>x + 1 / 2\<rfloor>"

definition percentCompleted :: "progress_event \<Rightarrow> jsnum" where
  "percentCompleted ev =
     (case ev_total ev of
        None \<Rightarrow> NaN
      | Some t \<Rightarrow>
          if t = 0 then (if loaded ev = 0 then NaN else Infinity)
          else
            (let product = to_double (to_double (of_nat (unat (loaded ev))) * 100);
                 quotient = to_double (product / to_double (of_nat (unat t)))
             in Finite (math_round quotient)))"

definition onUploadProgress :: "progress_event \<Rightarrow> state \<Rightarrow> state" where
  "onUploadProgress ev s = s\<lparr>uploadProgress := percentCompleted ev\<rparr>"

text \<open>
  \<open>analyze_begin\<close> is \<^verbatim>\<open>analyzeForm\<close> up to the \<^verbatim>\<open>await\<close>; \<open>analyze_settle\<close> is what runs
  when the promise settles: \<^verbatim>\<open>setAnalysis\<close> or the \<^verbatim>\<open>catch\<close> block, then \<^verbatim>\<open>finally\<close>.
  \<open>analyzeForm\<close> is one whole call, given the progress events the transport delivers and
  how the request ends; \<open>None\<close> is a request that never settles.
\<close>

definition analyze_begin :: "state \<Rightarrow> state" where
  "analyze_begin s =
     (case videoFile s of
        None \<Rightarrow> s
      | Some f \<Rightarrow>
          s\<lparr>loading := True, uploadProgress := Finite 0,
            requests := requests s @
              [\<lparr>req_endpoint = ''http://localhost:5000/api/analyze'',
                req_content_type = ''multipart/form-data'',
                req_video = f, req_exercise_type = exerciseType s\<rparr>],
            inflight := Suc (inflight s)\<rparr>)"

definition analyze_settle :: "outcome \<Rightarrow> state \<Rightarrow> state" where
  "analyze_settle out s =
     (let s1 = (case out of
                  Resolved d \<Rightarrow> s\<lparr>analysis := Some d\<rparr>
                | Rejected err \<Rightarrow>
                    s\<lparr>consoleErrors := consoleErrors s @ [''Analysis failed: '' @ err],
                      alerts := alerts s @ [''Analysis failed. Please try again.'']\<rparr>)
      in s1\<lparr>loading := False, uploadProgress := Finite 0, inflight := inflight s1 - 1\<rparr>)"

definition analyzeForm :: "progress_event list \<Rightarrow> outcome option \<Rightarrow> state \<Rightarrow> state" where
  "analyzeForm evs out s =
     (case videoFile s of
        None \<Rightarrow> s
      | Some f \<Rightarrow>
          (let s1 = fold onUploadProgress evs (analyze_begin s)
           in case out of None \<Rightarrow> s1 | Some r \<Rightarrow> analyze_settle r s1))"

subsection \<open>The component as a machine driven by events\<close>

text \<open>
  The analyze button is disabled while no file is selected or a request is loading.
  Progress and settlement only reach the component while a request is outstanding.
\<close>

datatype event =
    DragEnter
  | DragLeave
  | DragOver
  | Drop "jsfile option"
  | FileSelect "jsfile option"
  | SelectExercise string
  | ClickAnalyze
  | UploadProgress progress_event
  | Settle outcome

fun step :: "state \<Rightarrow> event \<Rightarrow> state" where
  "step s DragEnter = handleDragEnter s"
| "step s DragLeave = handleDragLeave s"
| "step s DragOver = handleDragOver s"
| "step s (Drop fo) = commit s (handleDrop fo s)"
| "step s (FileSelect fo) = commit s (handleFileSelect fo s)"
| "step s (SelectExercise v) = setExerciseType v s"
| "step s ClickAnalyze = (if videoFile s = None \<or> loading s then s else analyze_begin s)"
| "step s (UploadProgress ev) = (if inflight s = 0 then s else onUploadProgress ev s)"
| "step s (Settle out) = (if inflight s = 0 then s else analyze_settle out s)"

definition run :: "event list \<Rightarrow> state" where
  "run evs = foldl step initial_state evs"

subsection \<open>Tracking preview handles\<close>

text \<open>
  A resource tracker over the log of URL calls: the handles that are live after the log,
  and the numbers of creations and releases. Revoking a URL that is not live does nothing.
\<close>

fun track :: "url list \<Rightarrow> url_event \<Rightarrow> url list" where
  "track live (Created u) = live @ [u]"
| "track live (Revoked u) = removeAll u live"

definition live_handles :: "url_event list \<Rightarrow> url list" where
  "live_handles es = foldl track [] es"

fun is_created :: "url_event \<Rightarrow> bool" where
  "is_created (Created u) = True"
| "is_created (Revoked u) = False"

definition creations :: "url_event list \<Rightarrow> nat" where
  "creations es = length (filter is_created es)"

definition releases :: "url_event list \<Rightarrow> nat" where
  "releases es = length (filter (\<lambda>e. \<not> is_created e) es)"

section \<open>Reference definitions and sample data\<close>

text \<open>
  The score bands in the words of the specification (high from 80, medium from 60 to
  below 80, low below 60), with the text colour of each band; \<open>getScoreColor\<close> is
  compared with them below.
\<close>

datatype band = High | Medium | Low

definition scoreBand_spec :: "int \<Rightarrow> band" where
  "scoreBand_spec sc =
     (if sc \<ge> 80 then High else if 60 \<le> sc \<and> sc < 80 then Medium else Low)"

fun band_class :: "band \<Rightarrow> string" where
  "band_class High = ''text-green-600''"
| "band_class Medium = ''text-yellow-600''"
| "band_class Low = ''text-red-600''"

text \<open>
  The response of the end-to-end example of the specification, whose breakdown is the
  empty object, a response body that is not JSON, a video file and a file that is not a
  video.
\<close>

definition sample_result :: analysis_result where
  "sample_result =
     \<lparr>overall_score = 72, whats_right = Some [''good depth''],
      corrections_needed = Some [\<lparr>issue = ''elbow flare'', severity = Some ''warning'',
         feedback = ''elbows too wide'', correction_instruction = ''tuck elbows to 45 degrees''\<rparr>],
      detailed_breakdown = Some [], improvement_tips = Some [''slow the descent''],
      overlay_url = None\<rparr>"

definition malformed_body :: response_data where
  "malformed_body = RawBody ''<html><body>Service starting, try again</body></html>''"

definition sample_video :: jsfile where
  "sample_video = \<lparr>file_ref = 1, file_name = ''pushup.mp4'', file_type = ''video/mp4''\<rparr>"

definition sample_image :: jsfile where
  "sample_image = \<lparr>file_ref = 2, file_name = ''photo.png'', file_type = ''image/png''\<rparr>"

text \<open>The events that publish a result: a request settling with a response.\<close>

fun is_success :: "event \<Rightarrow> bool" where
  "is_success (Settle (Resolved d)) = True"
| "is_success e = False"

text \<open>
  The discipline of the URL log: creations and releases alternate, and every release is
  of the handle created last. \<open>replay cur es\<close> follows the log from the handle \<open>cur\<close>
  held before it and gives the handle held after it, or \<open>None\<close> when the log breaks the
  discipline. A state is \<open>tracked\<close> when its log keeps the discipline and ends with the
  handle stored in \<^verbatim>\<open>videoUrlRef\<close>.
\<close>

fun replay :: "url option \<Rightarrow> url_event list \<Rightarrow> url option option" where
  "replay cur [] = Some cur"
| "replay None (Created u # es) = replay (Some u) es"
| "replay (Some v) (Revoked u # es) = (if u = v then replay None es else None)"
| "replay (Some v) (Created u # es) = None"
| "replay None (Revoked u # es) = None"

fun held :: "url option \<Rightarrow> url list" where
  "held None = []"
| "held (Some u) = [u]"

definition tracked :: "state \<Rightarrow> bool" where
  "tracked s = (replay None (urlEvents s) = Some (videoUrlRef s))"

section \<open>Properties of the result renderer\<close>

lemmas handler_defs =
  handleDrop_def handleFileSelect_def commit_def videoFile_effect_def createObjectURL_def
  revokeObjectURL_def handleDragEnter_def handleDragLeave_def handleDragOver_def
  setExerciseType_def analyze_begin_def analyze_settle_def onUploadProgress_def startsWith_def

text \<open>
  Claim C5. For every integer score, \<open>getScoreColor\<close> gives the high band (green) from
  80 on, the medium band (yellow) from 60 to 79 and the low band (red) below 60, so it
  agrees with the bands of the specification; and the report uses this one function for
  the overall score and for the score of every aspect of the breakdown.
\<close>

theorem getScoreColor_bands:
  "(sc \<ge> 80 \<longrightarrow> getScoreColor sc = ''text-green-600'') \<and>
   (60 \<le> sc \<and> sc < 80 \<longrightarrow> getScoreColor sc = ''text-yellow-600'') \<and>
   (sc < 60 \<longrightarrow> getScoreColor sc = ''text-red-600'') \<and>
   getScoreColor sc = band_class (scoreBand_spec sc) \<and>
   hd (render_results (Some a)) =
     OverallScore (''text-2xl font-bold '' @ band_class (scoreBand_spec (overall_score a)))
       (overall_score a) \<and>
   aspect_class (render_aspect (k, d)) =
     ''text-sm font-semibold '' @ band_class (scoreBand_spec (score d)) \<and>
   (detailed_breakdown a = Some entries \<longrightarrow>
      DetailedBreakdown (map render_aspect entries) \<in> set (render_results (Some a)))"
  by (simp add: getScoreColor_def scoreBand_spec_def render_results_def render_aspect_def
      render_breakdown_def)

theorem getScoreColor_bands_witness:
  "(85::int) \<ge> 80 \<and> getScoreColor 85 = ''text-green-600'' \<and>
   getScoreColor 80 = ''text-green-600'' \<and>
   (60::int) \<le> 60 \<and> (60::int) < 80 \<and> getScoreColor 60 = ''text-yellow-600'' \<and>
   (59::int) < 60 \<and> getScoreColor 59 = ''text-red-600'' \<and>
   detailed_breakdown (sample_result\<lparr>detailed_breakdown :=
       Some [(''knee_angle'', \<lparr>score = 59, aspect_feedback = ''too shallow''\<rparr>)]\<rparr>) =
     Some [(''knee_angle'', \<lparr>score = 59, aspect_feedback = ''too shallow''\<rparr>)] \<and>
   DetailedBreakdown [\<lparr>aspect_title = ''knee angle'',
       aspect_class = ''text-sm font-semibold text-red-600'', aspect_score = 59,
       aspect_text = ''too shallow''\<rparr>]
     \<in> set (render_results (Some (sample_result\<lparr>detailed_breakdown :=
       Some [(''knee_angle'', \<lparr>score = 59, aspect_feedback = ''too shallow''\<rparr>)]\<rparr>)))"
  using
    getScoreColor_bands [of 85 sample_result "''depth''"
      "\<lparr>score = 85, aspect_feedback = ''deep enough''\<rparr>" "[]"]
    getScoreColor_bands [of 80 sample_result "''depth''"
      "\<lparr>score = 80, aspect_feedback = ''deep enough''\<rparr>" "[]"]
    getScoreColor_bands [of 60 sample_result "''depth''"
      "\<lparr>score = 60, aspect_feedback = ''deep enough''\<rparr>" "[]"]
    getScoreColor_bands [of 59 "sample_result\<lparr>detailed_breakdown :=
       Some [(''knee_angle'', \<lparr>score = 59, aspect_feedback = ''too shallow''\<rparr>)]\<rparr>"
      "''knee_angle''" "\<lparr>score = 59, aspect_feedback = ''too shallow''\<rparr>"
      "[(''knee_angle'', \<lparr>score = 59, aspect_feedback = ''too shallow''\<rparr>)]"]
  by (simp add: sample_result_def render_aspect_def getScoreColor_def scoreBand_spec_def)

text \<open>
  Claim C6. \<open>getSeverityColor\<close> maps "critical", "warning" and "info" to the red, yellow
  and blue classes, and every other severity, a missing one included, to the neutral
  grey class. It is a total function: for every severity it returns one of these four
  classes, and no branch of it raises.
\<close>

theorem getSeverityColor_total:
  "getSeverityColor (Some ''critical'') = ''bg-red-100 border-red-400 text-red-700'' \<and>
   getSeverityColor (Some ''warning'') = ''bg-yellow-100 border-yellow-400 text-yellow-700'' \<and>
   getSeverityColor (Some ''info'') = ''bg-blue-100 border-blue-400 text-blue-700'' \<and>
   (sev \<noteq> Some ''critical'' \<and> sev \<noteq> Some ''warning'' \<and> sev \<noteq> Some ''info'' \<longrightarrow>
      getSeverityColor sev = ''bg-gray-100 border-gray-400 text-gray-700'') \<and>
   getSeverityColor sev \<in> set [''bg-red-100 border-red-400 text-red-700'',
      ''bg-yellow-100 border-yellow-400 text-yellow-700'',
      ''bg-blue-100 border-blue-400 text-blue-700'',
      ''bg-gray-100 border-gray-400 text-gray-700'']"
  by (simp add: getSeverityColor_def)

theorem getSeverityColor_total_witness:
  "Some ''banana'' \<noteq> Some ''critical'' \<and> Some ''banana'' \<noteq> Some ''warning'' \<and>
   Some ''banana'' \<noteq> Some ''info'' \<and>
   getSeverityColor (Some ''banana'') = ''bg-gray-100 border-gray-400 text-gray-700'' \<and>
   getSeverityColor None = ''bg-gray-100 border-gray-400 text-gray-700''"
  using getSeverityColor_total [of "Some ''banana''"] getSeverityColor_total [of None]
  by simp

text \<open>
  Claim C10. A rendered correction whose severity is neither "critical" nor "warning"
  gets the info (blue) class on its inline badge, whatever the severity is; when the
  severity is not "info" either, the container of the same correction gets the neutral
  grey class of \<open>getSeverityColor\<close>.
\<close>

theorem badge_info_for_unrecognised:
  "(severity c \<noteq> Some ''critical'' \<and> severity c \<noteq> Some ''warning'' \<longrightarrow>
      badge_class (render_correction c) =
        ''text-xs font-medium px-2 py-1 rounded-full bg-blue-200 text-blue-800'') \<and>
   (severity c \<noteq> Some ''critical'' \<and> severity c \<noteq> Some ''warning'' \<and>
    severity c \<noteq> Some ''info'' \<longrightarrow>
      container_class (render_correction c) =
        ''border-l-4 p-4 rounded bg-gray-100 border-gray-400 text-gray-700'')"
  by (simp add: render_correction_def severityBadge_def getSeverityColor_def)

theorem badge_info_for_unrecognised_witness:
  "severity \<lparr>issue = ''elbow flare'', severity = Some ''banana'', feedback = ''elbows too wide'',
      correction_instruction = ''tuck elbows''\<rparr> \<noteq> Some ''critical'' \<and>
   severity \<lparr>issue = ''elbow flare'', severity = Some ''banana'', feedback = ''elbows too wide'',
      correction_instruction = ''tuck elbows''\<rparr> \<noteq> Some ''warning'' \<and>
   severity \<lparr>issue = ''elbow flare'', severity = Some ''banana'', feedback = ''elbows too wide'',
      correction_instruction = ''tuck elbows''\<rparr> \<noteq> Some ''info'' \<and>
   badge_class (render_correction \<lparr>issue = ''elbow flare'', severity = Some ''banana'',
      feedback = ''elbows too wide'', correction_instruction = ''tuck elbows''\<rparr>) =
     ''text-xs font-medium px-2 py-1 rounded-full bg-blue-200 text-blue-800'' \<and>
   container_class (render_correction \<lparr>issue = ''elbow flare'', severity = Some ''banana'',
      feedback = ''elbows too wide'', correction_instruction = ''tuck elbows''\<rparr>) =
     ''border-l-4 p-4 rounded bg-gray-100 border-gray-400 text-gray-700''"
  using badge_info_for_unrecognised [of "\<lparr>issue = ''elbow flare'', severity = Some ''banana'',
      feedback = ''elbows too wide'', correction_instruction = ''tuck elbows''\<rparr>"]
  by simp

text \<open>
  The three list sections are suppressed when their list is empty or absent, and the
  overlay when its path is empty or absent; the breakdown section is suppressed only
  when the mapping is absent.
\<close>

lemma sections_suppressed:
  "(render_whats_right a = [] \<longleftrightarrow> whats_right a = None \<or> whats_right a = Some []) \<and>
   (render_corrections a = [] \<longleftrightarrow>
      corrections_needed a = None \<or> corrections_needed a = Some []) \<and>
   (render_tips a = [] \<longleftrightarrow> improvement_tips a = None \<or> improvement_tips a = Some []) \<and>
   (render_overlay a = [] \<longleftrightarrow> overlay_url a = None \<or> overlay_url a = Some []) \<and>
   (render_breakdown a = [] \<longleftrightarrow> detailed_breakdown a = None)"
  by (simp add: render_whats_right_def render_corrections_def render_tips_def
      render_overlay_def render_breakdown_def split: option.splits)

text \<open>
  Claim C4, evaluated on the response of the end-to-end example: every section of the
  report is rendered from its own field alone, but the empty breakdown mapping is not
  suppressed. The report holds a breakdown section with no entries between the
  corrections and the tips.
\<close>

theorem empty_breakdown_is_rendered:
  "detailed_breakdown sample_result = Some [] \<and>
   render_results (Some sample_result) =
     [OverallScore ''text-2xl font-bold text-yellow-600'' 72,
      WhatsRight [''good depth''],
      CorrectionsNeeded
        [\<lparr>container_class = ''border-l-4 p-4 rounded bg-yellow-100 border-yellow-400 text-yellow-700'',
          badge_class = ''text-xs font-medium px-2 py-1 rounded-full bg-yellow-200 text-yellow-800'',
          badge_text = Some ''warning'', view_issue = ''elbow flare'',
          view_feedback = ''elbows too wide'', view_instruction = ''tuck elbows to 45 degrees''\<rparr>],
      DetailedBreakdown [],
      ImprovementTips [''slow the descent'']]"
  by (simp add: sample_result_def render_results_def render_whats_right_def
      render_corrections_def render_breakdown_def render_tips_def render_overlay_def
      render_correction_def getScoreColor_def getSeverityColor_def severityBadge_def)

section \<open>Properties of the upload and analyze gateway\<close>

lemma fold_progress_frame:
  "videoFile (fold onUploadProgress evs s) = videoFile s \<and>
   analysis (fold onUploadProgress evs s) = analysis s \<and>
   loading (fold onUploadProgress evs s) = loading s \<and>
   requests (fold onUploadProgress evs s) = requests s \<and>
   alerts (fold onUploadProgress evs s) = alerts s \<and>
   inflight (fold onUploadProgress evs s) = inflight s"
  by (induction evs arbitrary: s) (simp_all add: onUploadProgress_def)

text \<open>
  Claim C1 as stated fails for a malformed body. A body that is not JSON, sent with a
  success status, resolves the request; the call then stores the body text as the
  analysis, where none was stored before, and raises no alert.
\<close>

theorem malformed_body_is_published:
  "analysis (step initial_state (FileSelect (Some sample_video))) = None \<and>
   analysis (analyzeForm [] (Some (Resolved malformed_body))
     (step initial_state (FileSelect (Some sample_video)))) = Some malformed_body \<and>
   alerts (analyzeForm [] (Some (Resolved malformed_body))
     (step initial_state (FileSelect (Some sample_video)))) = []"
  by (simp add: analyzeForm_def analyze_begin_def analyze_settle_def initial_state_def
      handleFileSelect_def commit_def videoFile_effect_def createObjectURL_def
      revokeObjectURL_def sample_video_def Let_def)

text \<open>
  Claim C1, amended. When a call of \<open>analyzeForm\<close> with a file selected settles, with a
  response or with a failure, the loading flag is cleared and the upload progress is 0,
  and one request has been issued. When the request is rejected (a network error, a
  status that is not a success), exactly one alert has been added, the stored analysis is
  the one from before the call, and the one request is the only one: nothing is retried.
  When the request resolves, the body of the response is stored as the analysis as it
  is, a body that is not JSON included, and no alert is added. The same holds for the
  settlement alone, in whatever state it finds the component.
\<close>

theorem analyze_settles_clean:
  "loading (analyze_settle out s') = False \<and>
   uploadProgress (analyze_settle out s') = Finite 0 \<and>
   (videoFile s = Some f \<longrightarrow>
      loading (analyzeForm evs (Some out) s) = False \<and>
      uploadProgress (analyzeForm evs (Some out) s) = Finite 0 \<and>
      length (requests (analyzeForm evs (Some out) s)) = length (requests s) + 1) \<and>
   (videoFile s = Some f \<and> out = Rejected err \<longrightarrow>
      alerts (analyzeForm evs (Some out) s) = alerts s @ [''Analysis failed. Please try again.''] \<and>
      analysis (analyzeForm evs (Some out) s) = analysis s \<and>
      requests (analyzeForm evs (Some out) s) =
        requests s @ [\<lparr>req_endpoint = ''http://localhost:5000/api/analyze'',
          req_content_type = ''multipart/form-data'', req_video = f,
          req_exercise_type = exerciseType s\<rparr>]) \<and>
   (out = Rejected err \<longrightarrow>
      alerts (analyze_settle out s') = alerts s' @ [''Analysis failed. Please try again.''] \<and>
      analysis (analyze_settle out s') = analysis s' \<and>
      requests (analyze_settle out s') = requests s') \<and>
   (videoFile s = Some f \<and> out = Resolved d \<longrightarrow>
      alerts (analyzeForm evs (Some out) s) = alerts s \<and>
      analysis (analyzeForm evs (Some out) s) = Some d \<and>
      requests (analyzeForm evs (Some out) s) =
        requests s @ [\<lparr>req_endpoint = ''http://localhost:5000/api/analyze'',
          req_content_type = ''multipart/form-data'', req_video = f,
          req_exercise_type = exerciseType s\<rparr>]) \<and>
   (out = Resolved d \<longrightarrow>
      alerts (analyze_settle out s') = alerts s' \<and>
      analysis (analyze_settle out s') = Some d \<and>
      requests (analyze_settle out s') = requests s')"
  by (cases out)
    (simp_all add: analyzeForm_def analyze_settle_def analyze_begin_def fold_progress_frame
      Let_def)

theorem analyze_settles_clean_witness:
  "videoFile (step initial_state (FileSelect (Some sample_video))) = Some sample_video \<and>
   Rejected ''Request failed with status code 500'' = Rejected ''Request failed with status code 500'' \<and>
   loading (analyzeForm [\<lparr>loaded = 1, ev_total = Some 2\<rparr>]
     (Some (Rejected ''Request failed with status code 500''))
     (step initial_state (FileSelect (Some sample_video)))) = False \<and>
   uploadProgress (analyzeForm [\<lparr>loaded = 1, ev_total = Some 2\<rparr>]
     (Some (Rejected ''Request failed with status code 500''))
     (step initial_state (FileSelect (Some sample_video)))) = Finite 0 \<and>
   alerts (analyzeForm [\<lparr>loaded = 1, ev_total = Some 2\<rparr>]
     (Some (Rejected ''Request failed with status code 500''))
     (step initial_state (FileSelect (Some sample_video)))) = [''Analysis failed. Please try again.''] \<and>
   analysis (analyzeForm [\<lparr>loaded = 1, ev_total = Some 2\<rparr>]
     (Some (Rejected ''Request failed with status code 500''))
     (step initial_state (FileSelect (Some sample_video)))) = None \<and>
   length (requests (analyzeForm [\<lparr>loaded = 1, ev_total = Some 2\<rparr>]
     (Some (Rejected ''Request failed with status code 500''))
     (step initial_state (FileSelect (Some sample_video))))) = 1 \<and>
   Resolved (Report sample_result) = Resolved (Report sample_result) \<and>
   loading (analyzeForm [\<lparr>loaded = 1, ev_total = Some 2\<rparr>]
     (Some (Resolved (Report sample_result)))
     (step initial_state (FileSelect (Some sample_video)))) = False \<and>
   alerts (analyzeForm [\<lparr>loaded = 1, ev_total = Some 2\<rparr>]
     (Some (Resolved (Report sample_result)))
     (step initial_state (FileSelect (Some sample_video)))) = [] \<and>
   analysis (analyzeForm [\<lparr>loaded = 1, ev_total = Some 2\<rparr>]
     (Some (Resolved (Report sample_result)))
     (step initial_state (FileSelect (Some sample_video)))) = Some (Report sample_result)"
  using
    analyze_settles_clean [of "Rejected ''Request failed with status code 500''"
      initial_state "step initial_state (FileSelect (Some sample_video))" sample_video
      "[\<lparr>loaded = 1, ev_total = Some 2\<rparr>]" "''Request failed with status code 500''"
      "Report sample_result"]
    analyze_settles_clean [of "Resolved (Report sample_result)"
      initial_state "step initial_state (FileSelect (Some sample_video))" sample_video
      "[\<lparr>loaded = 1, ev_total = Some 2\<rparr>]" "''Request failed with status code 500''"
      "Report sample_result"]
  by (simp add: initial_state_def handleFileSelect_def commit_def videoFile_effect_def
      createObjectURL_def revokeObjectURL_def sample_video_def)

lemma floor_rat_numeral:
  "\<lfloor>numeral a / numeral b :: rat\<rfloor> = numeral a div numeral b"
  by (metis floor_divide_of_int_eq of_int_numeral)

lemmas rounding_defs =
  to_double_def ulp_def round_half_even_def math_round_def halvings.simps doublings.simps
  floor_rat_numeral

text \<open>
  Claim C2 as stated fails: with 2 of 3 bytes sent the reported progress is 67, and the
  floor of 200 / 3 is 66.
\<close>

theorem round_differs_from_floor:
  "uploadProgress (onUploadProgress \<lparr>loaded = 2, ev_total = Some 3\<rparr> initial_state) = Finite 67 \<and>
   uploadProgress (onUploadProgress \<lparr>loaded = 2, ev_total = Some 3\<rparr> initial_state)
     \<noteq> Finite \<lfloor>(2 * 100) / (3 :: rat)\<rfloor>"
proof -
  have a: "to_double 2 = 2" by (simp add: rounding_defs)
  have b: "to_double 200 = 200" by (simp add: rounding_defs)
  have c: "to_double 3 = 3" by (simp add: rounding_defs)
  have d: "math_round (to_double (200 / 3)) = 67" by (simp add: rounding_defs)
  show ?thesis
    by (simp add: onUploadProgress_def percentCompleted_def Let_def a b c d floor_rat_numeral)
qed

text \<open>
  For large counters the double quotient can land on a half where the exact quotient lies
  below it: here the exact quotient is just under 34.5, the double is 34.5, and the
  reported progress is 35.
\<close>

lemma double_quotient_reaches_half:
  "percentCompleted \<lparr>loaded = 97108866965177, ev_total = Some 281474976710658\<rparr> = Finite 35 \<and>
   \<lfloor>(97108866965177 * 100) / (281474976710658 :: rat) + 1 / 2\<rfloor> = 34"
proof -
  have a: "to_double 97108866965177 = 97108866965177" by (simp add: rounding_defs)
  have b: "to_double 9710886696517700 = 9710886696517700" by (simp add: rounding_defs)
  have c: "to_double 281474976710658 = 281474976710658" by (simp add: rounding_defs)
  have d: "math_round (to_double (4855443348258850 / 140737488355329)) = 35"
    by (simp add: rounding_defs)
  show ?thesis
    by (simp add: percentCompleted_def Let_def a b c d floor_rat_numeral)
qed

text \<open>
  Rounding a quotient of naturals to the nearest integer: the floor when twice the
  remainder is below the divisor, one more otherwise.
\<close>

lemma math_round_quotient:
  assumes "0 < t"
  shows "math_round (of_nat a / of_nat t) =
    \<lfloor>(of_nat a / of_nat t :: rat)\<rfloor> + (if 2 * (a mod t) < t then 0 else 1)"
proof -
  let ?q = "a div t" and ?r = "a mod t"
  have t0: "(of_nat t :: rat) > 0" using assms by simp
  have split: "(of_nat a / of_nat t :: rat) = of_nat ?q + of_nat ?r / of_nat t"
  proof -
    have "(of_nat a :: rat) = of_nat (t * ?q + ?r)" by simp
    also have "\<dots> = of_nat t * of_nat ?q + of_nat ?r" by (simp only: of_nat_add of_nat_mult)
    finally show ?thesis using t0 by (simp add: field_simps)
  qed
  have fl: "\<lfloor>(of_nat a / of_nat t :: rat)\<rfloor> = int ?q"
    by (simp add: floor_divide_of_nat_eq)
  have rlt: "(of_nat ?r :: rat) < of_nat t" using assms by simp
  show ?thesis
  proof (cases "2 * ?r < t")
    case True
    then have "(2 * of_nat ?r :: rat) < of_nat t"
      by (metis of_nat_less_iff of_nat_mult of_nat_numeral)
    then have "of_nat ?r / of_nat t + 1 / 2 < (1 :: rat)" using t0 by (simp add: field_simps)
    moreover have "0 \<le> of_nat ?r / (of_nat t :: rat)" by simp
    ultimately have "\<lfloor>of_nat a / of_nat t + 1 / 2 :: rat\<rfloor> = int ?q"
      unfolding split by (intro floor_unique) simp_all
    with True fl show ?thesis by (simp add: math_round_def)
  next
    case False
    then have "t \<le> 2 * ?r" by simp
    then have "(of_nat t :: rat) \<le> 2 * of_nat ?r"
      by (metis of_nat_le_iff of_nat_mult of_nat_numeral)
    then have "1 \<le> of_nat ?r / of_nat t + 1 / (2 :: rat)" using t0 by (simp add: field_simps)
    moreover have "of_nat ?r / of_nat t < (1 :: rat)" using rlt t0 by (simp add: field_simps)
    ultimately have "\<lfloor>of_nat a / of_nat t + 1 / 2 :: rat\<rfloor> = int ?q + 1"
      unfolding split by (intro floor_unique) simp_all
    with False fl show ?thesis by (simp add: math_round_def)
  qed
qed

text \<open>
  The exponent found by halving is below every power of two that bounds \<open>x\<close>, so below
  \<open>2 ^ 53\<close> the unit in the last place is a power of two that is at most 1, and below
  128 it is at most \<open>2 ^ -46\<close>. Hence integers below \<open>2 ^ 53\<close> and half-integers below
  128 are doubles, and rounding a value below 128 moves it by at most \<open>2 ^ -47\<close>.
\<close>

lemma halvings_le: "x < 2 ^ Suc m \<Longrightarrow> halvings n x \<le> m"
proof (induction n x arbitrary: m rule: halvings.induct)
  case (1 n x)
  show ?case
  proof (cases "x < 2 \<or> n = 0")
    case True
    then show ?thesis by (simp add: halvings.simps)
  next
    case False
    then have x2: "2 \<le> x" and n0: "n \<noteq> 0" by simp_all
    from x2 "1.prems" obtain m' where m: "m = Suc m'"
      by (cases m) simp_all
    from "1.prems" m have "x / 2 < 2 ^ Suc m'" by simp
    with "1.IH" False have "halvings (n - 1) (x / 2) \<le> m'" by simp
    with False m show ?thesis by (simp add: halvings.simps [of n x])
  qed
qed

lemma ulp_form:
  assumes "x < 2 ^ Suc m" and "m \<le> 52"
  shows "\<exists>j. 52 - m \<le> j \<and> ulp x = 1 / 2 ^ j"
proof (cases "1 \<le> x")
  case True
  let ?h = "halvings 1023 x"
  have h: "?h \<le> m" by (rule halvings_le [OF assms(1)])
  with assms(2) have e: "(2::rat) ^ 52 = 2 ^ ?h * 2 ^ (52 - ?h)"
    by (simp flip: power_add)
  have "ulp x = 2 ^ ?h / 2 ^ 52"
    using True by (simp only: ulp_def if_True)
  also have "\<dots> = 2 ^ ?h / (2 ^ ?h * 2 ^ (52 - ?h))"
    by (simp only: e)
  also have "\<dots> = 1 / 2 ^ (52 - ?h)"
    by simp
  finally have "ulp x = 1 / 2 ^ (52 - ?h)" .
  moreover from h have "52 - m \<le> 52 - ?h" by simp
  ultimately show ?thesis by blast
next
  case False
  let ?d = "doublings 1022 x"
  from False have "ulp x = 1 / 2 ^ (?d + 52)"
    by (simp add: ulp_def power_add)
  moreover have "52 - m \<le> ?d + 52" by simp
  ultimately show ?thesis by blast
qed

lemma round_half_even_of_int: "round_half_even (of_int z) = z"
  by (simp add: round_half_even_def)

lemma round_half_even_error: "\<bar>of_int (round_half_even y) - y\<bar> \<le> 1 / 2"
proof -
  have "of_int \<lfloor>y\<rfloor> \<le> y" and "y < of_int \<lfloor>y\<rfloor> + 1" by linarith+
  then show ?thesis
    unfolding round_half_even_def by (auto simp: abs_le_iff) 
qed

lemma to_double_exact:
  assumes "0 \<le> N" and "(of_int N :: rat) < 2 ^ 53"
  shows "to_double (of_int N) = of_int N"
proof (cases "N = 0")
  case True
  then show ?thesis by (simp add: to_double_def)
next
  case False
  obtain j where u: "ulp (of_int N) = 1 / 2 ^ j"
    using ulp_form [of "of_int N" 52] assms(2) by auto
  have "of_int N / ulp (of_int N) = (of_int (N * 2 ^ j) :: rat)"
    by (simp add: u)
  then have "round_half_even (of_int N / ulp (of_int N)) = N * 2 ^ j"
    by (simp only: round_half_even_of_int)
  with False show ?thesis
    by (simp add: to_double_def u)
qed

lemma to_double_error:
  assumes "x < 128"
  shows "\<bar>to_double x - x\<bar> \<le> 1 / 2 ^ 47"
proof (cases "x = 0")
  case True
  then show ?thesis by (simp add: to_double_def)
next
  case False
  from assms have "x < 2 ^ Suc 6" by simp
  then obtain j where j: "46 \<le> j" and u: "ulp x = 1 / 2 ^ j"
    using ulp_form [of x 6] by auto
  let ?y = "x / ulp x"
  have upos: "0 < ulp x" by (simp add: u)
  have "to_double x - x = (of_int (round_half_even ?y) - ?y) * ulp x"
    using False upos by (simp add: to_double_def algebra_simps)
  then have "\<bar>to_double x - x\<bar> = \<bar>of_int (round_half_even ?y) - ?y\<bar> * ulp x"
    using upos by (simp add: abs_mult)
  also have "\<dots> \<le> 1 / 2 * ulp x"
    using round_half_even_error [of ?y] upos by (intro mult_right_mono) simp_all
  also have "\<dots> = 1 / 2 ^ Suc j" by (simp add: u)
  also have "\<dots> \<le> 1 / 2 ^ 47"
  proof -
    from j have "(2::rat) ^ 47 \<le> 2 ^ Suc j" by (intro power_increasing) simp_all
    then show ?thesis by (simp add: frac_le)
  qed
  finally show ?thesis .
qed

lemma to_double_half_integer:
  assumes "0 \<le> k" and "(of_int k :: rat) + 1 / 2 < 128"
  shows "to_double (of_int k + 1 / 2) = of_int k + 1 / 2"
proof -
  let ?x = "of_int k + 1 / 2 :: rat"
  from assms(1) have "(0::rat) \<le> of_int k" by simp
  then have pos: "?x \<noteq> 0" by linarith
  from assms(2) have "?x < 2 ^ Suc 6" by simp
  then obtain j where j: "46 \<le> j" and u: "ulp ?x = 1 / 2 ^ j"
    using ulp_form [of ?x 6] by auto
  from j obtain i where i: "j = Suc i" by (cases j) simp_all
  have "?x / ulp ?x = (of_int ((2 * k + 1) * 2 ^ i) :: rat)"
    by (simp add: u i algebra_simps)
  then have "round_half_even (?x / ulp ?x) = (2 * k + 1) * 2 ^ i"
    by (simp only: round_half_even_of_int)
  with pos show ?thesis
    by (simp add: to_double_def u i algebra_simps)
qed


lemma math_round_to_double:
  assumes n0: "0 < n" and nb: "n < 2 ^ 46" and an: "a \<le> 100 * n"
  shows "math_round (to_double (of_nat a / of_nat n)) = math_round (of_nat a / of_nat n)"
proof -
  let ?q = "of_nat a / of_nat n :: rat"
  define k where "k = \<lfloor>?q + 1 / 2\<rfloor>"
  have npos: "(0::rat) < of_nat n" using n0 by simp
  have q0: "0 \<le> ?q" by simp
  have "(of_nat a :: rat) \<le> of_nat (100 * n)" using an by (simp only: of_nat_le_iff)
  then have q100: "?q \<le> 100" using npos by (simp add: field_simps)
  then have q128: "?q < 128" by simp
  define eps :: rat where "eps = 1 / 2 ^ 47"
  have "\<bar>to_double ?q - ?q\<bar> \<le> eps"
    unfolding eps_def by (rule to_double_error [OF q128])
  then have e1: "to_double ?q \<le> ?q + eps" and e2: "?q - eps \<le> to_double ?q"
    by linarith+
  have "(2 * of_nat n :: rat) < 2 ^ 47"
  proof -
    have "(of_nat n :: rat) < of_nat (2 ^ 46)" using nb by (simp only: of_nat_less_iff)
    then show ?thesis by simp
  qed
  then have gap: "eps < 1 / (2 * of_nat n :: rat)"
    unfolding eps_def using npos by (intro divide_strict_left_mono) simp_all
  have k1: "of_int k \<le> ?q + 1 / 2" and k2: "?q + 1 / 2 < of_int k + 1"
    unfolding k_def by linarith+
  have upper: "to_double ?q + 1 / 2 < of_int k + 1"
  proof -
    from k2 have "2 * (of_nat a :: rat) < (2 * of_int k + 1) * of_nat n"
      using npos by (simp add: field_simps)
    then have "(of_int (2 * int a) :: rat) < of_int ((2 * k + 1) * int n)" by simp
    then have "2 * int a < (2 * k + 1) * int n" by (simp only: of_int_less_iff)
    then have "2 * int a + 1 \<le> (2 * k + 1) * int n" by simp
    then have "(of_int (2 * int a + 1) :: rat) \<le> of_int ((2 * k + 1) * int n)"
      by (simp only: of_int_le_iff)
    then have "2 * (of_nat a :: rat) + 1 \<le> (2 * of_int k + 1) * of_nat n" by simp
    then have "?q + 1 / (2 * of_nat n) \<le> of_int k + 1 / 2"
      using npos by (simp add: field_simps)
    with gap e1 show ?thesis by linarith
  qed
  have lower: "of_int k \<le> to_double ?q + 1 / 2"
  proof (cases "?q + 1 / 2 = of_int k")
    case True
    then have q: "?q = of_int (k - 1) + 1 / 2" by simp
    from True q0 have "(0::rat) < of_int k" by linarith
    then have "0 < k" by (simp only: of_int_0_less_iff)
    then have "0 \<le> k - 1" by simp
    moreover from q q128 have "(of_int (k - 1) :: rat) + 1 / 2 < 128" by simp
    ultimately have "to_double (of_int (k - 1) + 1 / 2) = of_int (k - 1) + 1 / 2"
      by (rule to_double_half_integer)
    with q have "to_double ?q = ?q" by simp
    with k1 show ?thesis by simp
  next
    case False
    with k1 have "of_int k < ?q + 1 / 2" by linarith
    then have "(2 * of_int k - 1) * of_nat n < 2 * (of_nat a :: rat)"
      using npos by (simp add: field_simps)
    then have "(of_int ((2 * k - 1) * int n) :: rat) < of_int (2 * int a)" by simp
    then have "(2 * k - 1) * int n < 2 * int a" by (simp only: of_int_less_iff)
    then have "(2 * k - 1) * int n + 1 \<le> 2 * int a" by simp
    then have "(of_int ((2 * k - 1) * int n + 1) :: rat) \<le> of_int (2 * int a)"
      by (simp only: of_int_le_iff)
    then have "(2 * of_int k - 1) * of_nat n + 1 \<le> 2 * (of_nat a :: rat)" by simp
    then have "((2 * of_int k - 1) * of_nat n + 1) / (2 * of_nat n)
        \<le> 2 * (of_nat a :: rat) / (2 * of_nat n)"
      using npos by (intro divide_right_mono) simp_all
    moreover have "((2 * of_int k - 1) * of_nat n + 1) / (2 * of_nat n)
        = of_int k - 1 / 2 + 1 / (2 * of_nat n :: rat)"
      using npos by (simp add: field_simps)
    ultimately have "of_int k - 1 / 2 + 1 / (2 * of_nat n) \<le> ?q"
      by simp
    with gap e2 show ?thesis by linarith
  qed
  from lower upper have "\<lfloor>to_double ?q + 1 / 2\<rfloor> = k" by (rule floor_unique)
  then show ?thesis by (simp add: math_round_def k_def)
qed

text \<open>
  With fewer than \<open>2 ^ 46\<close> bytes in total and no more bytes sent than that, the counters
  and the product are doubles, and the double quotient is on the same side of every
  half-integer as the exact one.
\<close>

lemma percentCompleted_exact:
  assumes "0 < t" and "l \<le> t" and "unat t < 2 ^ 46"
  shows "percentCompleted \<lparr>loaded = l, ev_total = Some t\<rparr> =
    Finite (math_round (of_nat (unat l * 100) / of_nat (unat t)))"
proof -
  let ?l = "unat l" and ?t = "unat t"
  have t0: "0 < ?t" using assms(1) by (simp add: unat_gt_0)
  have lt: "?l \<le> ?t" using assms(2) by (simp add: word_le_nat_alt)
  have small: "?l * 100 < 2 ^ 53"
  proof -
    have "?l * 100 \<le> ?t * 100" using lt by simp
    also have "\<dots> < 2 ^ 46 * 128" using assms(3) by simp
    also have "\<dots> = (2::nat) ^ 53" by simp
    finally show ?thesis .
  qed
  have "(of_int (int ?l) :: rat) < 2 ^ 53"
  proof -
    have "?l < 2 ^ 53" using small by simp
    then have "(of_nat ?l :: rat) < of_nat (2 ^ 53)" by (simp only: of_nat_less_iff)
    then show ?thesis by simp
  qed
  then have a: "to_double (of_nat ?l) = of_nat ?l"
    using to_double_exact [of "int ?l"] by simp
  have "(of_int (int (?l * 100)) :: rat) < 2 ^ 53"
  proof -
    have "(of_nat (?l * 100) :: rat) < of_nat (2 ^ 53)" using small by (simp only: of_nat_less_iff)
    then show ?thesis by simp
  qed
  then have b: "to_double (of_nat ?l * 100) = of_nat (?l * 100)"
    using to_double_exact [of "int (?l * 100)"] by simp
  have "(of_int (int ?t) :: rat) < 2 ^ 53"
  proof -
    have "?t < 2 ^ 53" using assms(3) by (rule less_trans) simp
    then have "(of_nat ?t :: rat) < of_nat (2 ^ 53)" by (simp only: of_nat_less_iff)
    then show ?thesis by simp
  qed
  then have c: "to_double (of_nat ?t) = of_nat ?t"
    using to_double_exact [of "int ?t"] by simp
  have main: "math_round (to_double (of_nat (?l * 100) / of_nat ?t))
      = math_round (of_nat (?l * 100) / of_nat ?t)"
    using t0 assms(3) lt by (intro math_round_to_double) simp_all
  have tn: "t \<noteq> 0" using assms(1) by auto
  show ?thesis
    unfolding percentCompleted_def
    by (simp add: tn Let_def a b c main del: of_nat_mult of_nat_unat)
qed

text \<open>
  Claim C2, amended. With the total known, not zero and below \<open>2 ^ 46\<close> bytes, and no
  more bytes sent than the total, every reported upload progress is
  \<open>loaded * 100 / total\<close> rounded to the nearest integer, a half rounded up: the floor of
  the quotient when its fractional part is below one half, and the floor plus one
  otherwise.
\<close>

theorem upload_progress_rounds_to_nearest:
  "0 < t \<Longrightarrow> l \<le> t \<Longrightarrow> unat t < 2 ^ 46 \<Longrightarrow>
     uploadProgress (onUploadProgress \<lparr>loaded = l, ev_total = Some t\<rparr> s) =
       Finite (\<lfloor>(of_nat (unat l * 100) / of_nat (unat t) :: rat)\<rfloor>
         + (if 2 * ((unat l * 100) mod unat t) < unat t then 0 else 1))"
  by (simp add: onUploadProgress_def percentCompleted_exact math_round_quotient unat_gt_0
      del: of_nat_mult of_nat_unat)

theorem upload_progress_rounds_to_nearest_witness:
  "(0 :: 64 word) < 3 \<and> (2 :: 64 word) \<le> 3 \<and> unat (3 :: 64 word) < 2 ^ 46 \<and>
   uploadProgress (onUploadProgress \<lparr>loaded = 2, ev_total = Some 3\<rparr> initial_state) = Finite 67 \<and>
   (1 :: 64 word) \<le> 3 \<and>
   uploadProgress (onUploadProgress \<lparr>loaded = 1, ev_total = Some 3\<rparr> initial_state) = Finite 33"
  using upload_progress_rounds_to_nearest [of 3 2 initial_state]
    upload_progress_rounds_to_nearest [of 3 1 initial_state]
  by (simp add: floor_rat_numeral)

text \<open>
  Claim C3 as stated fails: after one request has succeeded, a second request in flight
  (loading, one request outstanding) still has the result of the first one stored.
\<close>

theorem inflight_keeps_previous_result:
  "loading (run [FileSelect (Some sample_video), ClickAnalyze, Settle (Resolved (Report sample_result)),
      ClickAnalyze]) \<and>
   inflight (run [FileSelect (Some sample_video), ClickAnalyze, Settle (Resolved (Report sample_result)),
      ClickAnalyze]) = 1 \<and>
   analysis (run [FileSelect (Some sample_video), ClickAnalyze, Settle (Resolved (Report sample_result)),
      ClickAnalyze]) \<noteq> None"
  by (simp add: run_def initial_state_def handler_defs sample_video_def)

lemma analysis_step:
  "analysis (step s e) =
     (case e of
        Settle (Resolved d) \<Rightarrow> if inflight s = 0 then analysis s else Some d
      | _ \<Rightarrow> analysis s)"
  by (cases e) (auto simp: handler_defs Let_def split: option.splits outcome.splits prod.splits)

lemma analysis_foldl_no_success:
  "\<not> list_ex is_success evs \<Longrightarrow> analysis (foldl step s evs) = analysis s"
proof (induction evs arbitrary: s)
  case Nil
  then show ?case by simp
next
  case (Cons e evs)
  then have "analysis (step s e) = analysis s"
    using analysis_step [of s e]
    by (cases e) (auto split: outcome.splits simp del: step.simps)
  with Cons show ?case by simp
qed

text \<open>
  Claim C3, amended. The stored analysis is absent in the initial state and stays absent
  as long as no request has succeeded. Starting a request, upload progress and a failed
  request leave it as it is, so during a request in flight it is what it was when the
  request started. It is set only by a request that settles with a response, which
  replaces it wholesale by that response; every other event leaves it unchanged.
\<close>

theorem analysis_lifecycle:
  "analysis initial_state = None \<and>
   (\<not> list_ex is_success evs \<longrightarrow> analysis (run evs) = None) \<and>
   analysis (analyze_begin s) = analysis s \<and>
   analysis (onUploadProgress ev s) = analysis s \<and>
   analysis (analyze_settle (Rejected err) s) = analysis s \<and>
   analysis (analyze_settle (Resolved d) s) = Some d \<and>
   analysis (step s e) =
     (case e of
        Settle (Resolved d') \<Rightarrow> if inflight s = 0 then analysis s else Some d'
      | _ \<Rightarrow> analysis s)"
proof -
  have "\<not> list_ex is_success evs \<longrightarrow> analysis (run evs) = None"
    by (simp add: run_def analysis_foldl_no_success initial_state_def)
  moreover have "analysis (analyze_begin s) = analysis s"
    by (simp add: analyze_begin_def split: option.splits)
  ultimately show ?thesis
    by (simp add: analysis_step initial_state_def onUploadProgress_def analyze_settle_def)
qed

theorem analysis_lifecycle_witness:
  "\<not> list_ex is_success
      [FileSelect (Some sample_video), ClickAnalyze, Settle (Rejected ''Network Error'')] \<and>
   analysis (run
      [FileSelect (Some sample_video), ClickAnalyze, Settle (Rejected ''Network Error'')]) = None \<and>
   analysis (step (run [FileSelect (Some sample_video), ClickAnalyze])
      (Settle (Resolved (Report sample_result)))) = Some (Report sample_result)"
  using analysis_lifecycle [of
      "[FileSelect (Some sample_video), ClickAnalyze, Settle (Rejected ''Network Error'')]"
      "run [FileSelect (Some sample_video), ClickAnalyze]" "\<lparr>loaded = 1, ev_total = Some 2\<rparr>"
      "''Network Error''" "Report sample_result" "Settle (Resolved (Report sample_result))"]
  by (simp add: run_def initial_state_def handler_defs sample_video_def)

text \<open>
  Claim C9. With no video file selected, a call of \<open>analyzeForm\<close> returns at once and
  leaves the whole state as it is: no request is issued, the loading flag and the upload
  progress are not touched and a stored analysis is not cleared. This holds however the
  request would have gone, and for the button as well.
\<close>

theorem analyze_without_file_noop:
  "videoFile s = None \<Longrightarrow>
     analyzeForm evs out s = s \<and> analyze_begin s = s \<and> step s ClickAnalyze = s \<and>
     requests (analyzeForm evs out s) = requests s \<and>
     loading (analyzeForm evs out s) = loading s \<and>
     uploadProgress (analyzeForm evs out s) = uploadProgress s \<and>
     analysis (analyzeForm evs out s) = analysis s"
  by (simp add: analyzeForm_def analyze_begin_def)

theorem analyze_without_file_noop_witness:
  "videoFile (initial_state\<lparr>analysis := Some (Report sample_result)\<rparr>) = None \<and>
   analyzeForm [\<lparr>loaded = 1, ev_total = Some 2\<rparr>] (Some (Rejected ''Network Error''))
     (initial_state\<lparr>analysis := Some (Report sample_result)\<rparr>) =
       initial_state\<lparr>analysis := Some (Report sample_result)\<rparr> \<and>
   requests (analyzeForm [\<lparr>loaded = 1, ev_total = Some 2\<rparr>] (Some (Rejected ''Network Error''))
     (initial_state\<lparr>analysis := Some (Report sample_result)\<rparr>)) = []"
  using analyze_without_file_noop [of "initial_state\<lparr>analysis := Some (Report sample_result)\<rparr>"
      "[\<lparr>loaded = 1, ev_total = Some 2\<rparr>]" "Some (Rejected ''Network Error'')"]
  by (simp add: initial_state_def)

section \<open>Properties of the input manager\<close>

text \<open>
  Claim C8. Dropping a file whose media type does not start with "video/" is rejected
  silently: the selected file and the preview handle are unchanged, no URL is created or
  released, and nothing is shown to the user (no alert, nothing on the console). The
  whole state is as before, but for the dragging flag, which every drop clears and which
  only serves the visual feedback.
\<close>

theorem non_video_drop_frame:
  "\<not> startsWith (file_type f) ''video/'' \<Longrightarrow>
     handleDrop (Some f) s = s\<lparr>isDragging := False\<rparr> \<and>
     step s (Drop (Some f)) = s\<lparr>isDragging := False\<rparr> \<and>
     videoFile (step s (Drop (Some f))) = videoFile s \<and>
     videoUrlRef (step s (Drop (Some f))) = videoUrlRef s \<and>
     urlEvents (step s (Drop (Some f))) = urlEvents s \<and>
     alerts (step s (Drop (Some f))) = alerts s \<and>
     consoleErrors (step s (Drop (Some f))) = consoleErrors s"
  by (simp add: handleDrop_def commit_def)

theorem non_video_drop_frame_witness:
  "\<not> startsWith (file_type sample_image) ''video/'' \<and>
   step (step initial_state DragEnter) (Drop (Some sample_image)) = initial_state \<and>
   urlEvents (step (run [FileSelect (Some sample_video)]) (Drop (Some sample_image))) =
     urlEvents (run [FileSelect (Some sample_video)])"
  using non_video_drop_frame [of sample_image "step initial_state DragEnter"]
    non_video_drop_frame [of sample_image "run [FileSelect (Some sample_video)]"]
  by (simp add: initial_state_def handler_defs sample_image_def)

subsection \<open>The preview handle\<close>

lemma replay_append:
  "replay cur (xs @ ys) = (case replay cur xs of None \<Rightarrow> None | Some c \<Rightarrow> replay c ys)"
  by (induction cur xs rule: replay.induct) simp_all

lemma replay_take:
  assumes "replay cur es = Some c"
  shows "\<exists>c'. replay cur (take n es) = Some c'"
proof -
  from assms have "replay cur (take n es @ drop n es) = Some c" by simp
  then show ?thesis
    unfolding replay_append by (cases "replay cur (take n es)") simp_all
qed

lemma replay_live:
  "replay cur es = Some c \<Longrightarrow> foldl track (held cur) es = held c"
  by (induction cur es rule: replay.induct) (simp_all split: if_splits)

lemma replay_counts:
  "replay cur es = Some c \<Longrightarrow>
     creations es + length (held cur) = releases es + length (held c)"
  by (induction cur es rule: replay.induct)
    (simp_all add: creations_def releases_def split: if_splits)

lemma held_le: "length (held c) \<le> 1"
  by (cases c) simp_all

lemma replay_bounds:
  assumes "replay None es = Some c"
  shows "length (live_handles (take n es)) \<le> 1"
    and "int (creations (take n es)) - int (releases (take n es)) \<le> 1"
proof -
  obtain c' where c': "replay None (take n es) = Some c'"
    using replay_take [OF assms] by blast
  from replay_live [OF c'] held_le [of c'] show "length (live_handles (take n es)) \<le> 1"
    by (simp add: live_handles_def)
  from replay_counts [OF c'] held_le [of c']
  show "int (creations (take n es)) - int (releases (take n es)) \<le> 1"
    by simp
qed

text \<open>Every event keeps the log disciplined and \<^verbatim>\<open>videoUrlRef\<close> in step with it.\<close>

lemma tracked_initial: "tracked initial_state"
  by (simp add: tracked_def initial_state_def)

lemma tracked_step: "tracked s \<Longrightarrow> tracked (step s e)"
  by (cases e)
    (auto simp: tracked_def handler_defs replay_append Let_def
      split: option.splits prod.splits outcome.splits)

lemma tracked_run: "tracked (run evs)"
proof -
  have "tracked s \<Longrightarrow> tracked (foldl step s evs)" for s
    by (induction evs arbitrary: s) (simp_all add: tracked_step)
  then show ?thesis by (simp add: run_def tracked_initial)
qed

lemma tracked_unmount: "tracked s \<Longrightarrow> replay None (urlEvents (unmount s)) = Some None"
  by (auto simp: tracked_def unmount_def revokeObjectURL_def replay_append split: option.splits)

text \<open>
  Claim C7. Over any sequence of events from the initial state, followed or not by the
  teardown of the component, at every point of the log of URL calls at most one preview
  handle is live and the creations exceed the releases by at most one; after the
  teardown no handle is live. A file selection that is accepted (from the picker, or a
  dropped video) releases the handle held before, if any, and only then creates the new
  one, which becomes the current one; the teardown releases the current one.
\<close>

theorem at_most_one_preview_handle:
  "length (live_handles (take n (urlEvents (run evs)))) \<le> 1 \<and>
   length (live_handles (take n (urlEvents (unmount (run evs))))) \<le> 1 \<and>
   int (creations (take n (urlEvents (unmount (run evs)))))
     - int (releases (take n (urlEvents (unmount (run evs))))) \<le> 1 \<and>
   live_handles (urlEvents (unmount (run evs))) = [] \<and>
   (videoUrlRef s = Some u \<longrightarrow>
      urlEvents (handleFileSelect (Some f) s) = urlEvents s @ [Revoked u, Created (nextUrl s)] \<and>
      videoUrlRef (handleFileSelect (Some f) s) = Some (nextUrl s) \<and>
      urlEvents (unmount s) = urlEvents s @ [Revoked u]) \<and>
   (videoUrlRef s = Some u \<and> startsWith (file_type f) ''video/'' \<longrightarrow>
      urlEvents (handleDrop (Some f) s) = urlEvents s @ [Revoked u, Created (nextUrl s)] \<and>
      videoUrlRef (handleDrop (Some f) s) = Some (nextUrl s))"
proof -
  have a: "replay None (urlEvents (run evs)) = Some (videoUrlRef (run evs))"
    using tracked_run [of evs] by (simp add: tracked_def)
  have b: "replay None (urlEvents (unmount (run evs))) = Some None"
    by (rule tracked_unmount [OF tracked_run])
  have "live_handles (urlEvents (unmount (run evs))) = []"
    using replay_live [OF b] by (simp add: live_handles_def)
  moreover have "videoUrlRef s = Some u \<longrightarrow>
      urlEvents (handleFileSelect (Some f) s) = urlEvents s @ [Revoked u, Created (nextUrl s)] \<and>
      videoUrlRef (handleFileSelect (Some f) s) = Some (nextUrl s) \<and>
      urlEvents (unmount s) = urlEvents s @ [Revoked u]"
    by (simp add: handleFileSelect_def unmount_def createObjectURL_def revokeObjectURL_def
        Let_def)
  moreover have "videoUrlRef s = Some u \<and> startsWith (file_type f) ''video/'' \<longrightarrow>
      urlEvents (handleDrop (Some f) s) = urlEvents s @ [Revoked u, Created (nextUrl s)] \<and>
      videoUrlRef (handleDrop (Some f) s) = Some (nextUrl s)"
    by (simp add: handleDrop_def createObjectURL_def revokeObjectURL_def Let_def)
  ultimately show ?thesis
    using replay_bounds [OF a, of n] replay_bounds [OF b, of n] by blast
qed

theorem at_most_one_preview_handle_witness:
  "videoUrlRef (run [FileSelect (Some sample_video)]) = Some 1 \<and>
   startsWith (file_type sample_video) ''video/'' \<and>
   urlEvents (handleDrop (Some sample_video) (run [FileSelect (Some sample_video)])) =
     [Created 0, Revoked 0, Created 1, Revoked 1, Created 2] \<and>
   urlEvents (handleFileSelect (Some sample_video) (run [FileSelect (Some sample_video)])) =
     [Created 0, Revoked 0, Created 1, Revoked 1, Created 2] \<and>
   urlEvents (unmount (run [FileSelect (Some sample_video)])) =
     [Created 0, Revoked 0, Created 1, Revoked 1] \<and>
   live_handles (urlEvents (unmount (run [FileSelect (Some sample_video)]))) = []"
  using at_most_one_preview_handle [of 3 "[FileSelect (Some sample_video)]"
      "run [FileSelect (Some sample_video)]" 1 sample_video]
  by (simp add: run_def initial_state_def handler_defs unmount_def live_handles_def
      sample_video_def Let_def)

end
